theory Spec2Isabelle
  imports Complex_Main "HOL-Library.AList" "HOL-Library.Sublist" "HOL-Library.Multiset"
begin

section \<open>The pin map application (src/script.js, class MapApp)\<close>

text \<open>
  The program is one JavaScript class, \<open>MapApp\<close>, that keeps a \<open>Map\<close> of pins, mirrors
  it into a sidebar, a counter and a browser storage slot, and reacts to user gestures.
  Every method becomes a function from the application state to the new state. What a
  method reads from outside the program is an argument of its model:
  \<^item> the clock (\<open>Date.now()\<close>, \<open>new Date()\<close>) is an \<open>int\<close>, the milliseconds since the epoch;
    a stored \<open>createdAt\<close> text is the ISO rendering of such an instant, and
    \<open>new Date(text)\<close> reads the instant back, so the model keeps the instant;
  \<open>Math.random().toString(36)\<close> is the text it produced;
  \<^item> the answer to a \<open>confirm(...)\<close> dialog is a \<open>bool\<close>;
  \<^item> the text of a form field is a \<open>string\<close>.
  A JavaScript string is read here as a list of code units below 256 (Latin-1); a
  number (latitude, longitude) is a \<open>real\<close>: the program only stores and copies it.
\<close>

subsection \<open>Strings: trim, toLowerCase, includes, number to text\<close>

definition isWhiteSpace :: "char \<Rightarrow> bool" where
  \<comment> \<open>the white space and line terminators of ECMAScript below 256:
      TAB, LF, VT, FF, CR, SPACE, NBSP\<close>
  "isWhiteSpace c = (of_char c \<in> set [9, 10, 11, 12, 13, 32, 160 :: nat])"

definition trim :: "string \<Rightarrow> string" where
  "trim s = rev (dropWhile isWhiteSpace (rev (dropWhile isWhiteSpace s)))"

definition toLower :: "char \<Rightarrow> char" where
  \<comment> \<open>A-Z, and the Latin-1 capitals 192..222 but the multiplication sign 215\<close>
  "toLower c =
     (let n = of_char c :: nat
      in if (65 \<le> n \<and> n \<le> 90) \<or> (192 \<le> n \<and> n \<le> 222 \<and> n \<noteq> 215)
         then char_of (n + 32) else c)"

definition toLowerCase :: "string \<Rightarrow> string" where
  "toLowerCase s = map toLower s"

definition String_includes :: "string \<Rightarrow> string \<Rightarrow> bool" where
  \<comment> \<open>\<open>s.includes(t)\<close>: \<open>t\<close> occurs in \<open>s\<close> as a contiguous run\<close>
  "String_includes s t = sublist t s"

definition digit :: "nat \<Rightarrow> char" where
  \<comment> \<open>the character of a decimal digit: 48 is the code of 0\<close>
  "digit d = char_of (48 + d)"

fun digits :: "nat \<Rightarrow> string" where
  "digits n = (if n < 10 then [digit n] else digits (n div 10) @ [digit (n mod 10)])"

definition Number_toString :: "int \<Rightarrow> string" where
  \<comment> \<open>the decimal text of an integer, as string concatenation renders a number\<close>
  "Number_toString i = (if i < 0 then CHR ''-'' # digits (nat (- i)) else digits (nat i))"

subsection \<open>Data\<close>

text \<open>
  \<open>pinData\<close> is the plain object that \<open>savePinsToStorage\<close> writes and that
  \<open>loadPinsFromStorage\<close> reads back; a \<open>pin\<close> of the store is that object and the marker
  handle of the map widget. \<open>updatedAt\<close> is \<open>None\<close> where the property is undefined.
\<close>

record pinData =
  pin_id :: string
  lat :: real
  lng :: real
  title :: string
  description :: string
  createdAt :: int
  updatedAt :: "int option"

record pin = pinData +
  marker :: nat

text \<open>A JavaScript \<open>Map\<close> keeps its entries in insertion order; \<open>set\<close> on a key that is
  present replaces the value where it stands, on a new key it appends.\<close>

type_synonym pinMap = "(string \<times> pin) list"

definition Map_get :: "pinMap \<Rightarrow> string \<Rightarrow> pin option" where
  "Map_get m k = map_of m k"

definition Map_set :: "string \<Rightarrow> pin \<Rightarrow> pinMap \<Rightarrow> pinMap" where
  "Map_set k v m = AList.update k v m"

definition Map_delete :: "string \<Rightarrow> pinMap \<Rightarrow> pinMap" where
  "Map_delete k m = AList.delete k m"

definition Map_values :: "pinMap \<Rightarrow> pin list" where
  "Map_values m = map snd m"

text \<open>
  What the storage slot \<open>mapPins\<close> can hold, told apart by what \<open>loadPinsFromStorage\<close>
  makes of the text: the empty text (falsy, so skipped), a text that \<open>JSON.parse\<close>
  rejects, a text that parses to something without \<open>forEach\<close>, or a text that parses to
  an array. An element of the array is \<open>null\<close> or an object with the seven properties
  of \<open>pinData\<close> (objects of another shape are outside the model).
  \<open>JSON.stringify\<close> of an array of such objects is a text that parses back to the same
  array; \<open>savePinsToStorage\<close> relies on that of the built-in functions, and so does the model.
\<close>

datatype element = JNull | JObject pinData

datatype stored = Empty_text | Unparsable | Not_an_array | Array "element list"

text \<open>The messages of \<open>showNotification\<close>, by the place they come from, and their type.\<close>

datatype message =
    Pin_saved | Pin_deleted | No_pins_to_delete | All_pins_deleted
  | Save_failed | Load_failed
  | Title_required | Title_too_long | Description_too_long

datatype notification_type = success | error | info

text \<open>One rendered row of the sidebar (\<open>div.pin-item\<close>): the pin id of its data attribute,
  the text of its \<open>h4\<close>, the text of its \<open>p\<close>, and whether it is displayed. The \<open>p\<close> of a
  pin without description shows a fixed Japanese placeholder, which has no code unit
  below 256.\<close>

datatype ptext = Placeholder | Shown string

record pin_item =
  data_pin_id :: string
  h4_text :: string
  p_text :: ptext
  displayed :: bool

record formData =
  form_title :: string
  form_description :: string

record MapApp =
  pins :: pinMap
  currentPinId :: "string option"
  isEditing :: bool
  commentModal_show :: bool
  pinInfoModal_show :: bool
  pinList :: "pin_item list"
  pinCount :: nat
  notifications :: "(message \<times> notification_type) list"
  layers :: "nat list"
  markers_made :: nat
  mapPins :: "stored option"
  setItem_throws :: bool

text \<open>
  \<open>pinCount\<close> is the number shown in the element \<open>pinCount\<close>; \<open>notifications\<close> lists the
  calls of \<open>showNotification\<close>, oldest first; \<open>layers\<close> are the markers on the map and
  \<open>markers_made\<close> numbers them; \<open>mapPins\<close> is the storage slot (\<open>None\<close>: \<open>getItem\<close> returns
  null) and \<open>setItem_throws\<close> says whether the medium rejects a write.
\<close>

subsection \<open>Methods\<close>

definition truthy :: "string option \<Rightarrow> bool" where
  \<comment> \<open>\<open>this.currentPinId\<close> as a condition: neither null nor the empty string\<close>
  "truthy v = (case v of None \<Rightarrow> False | Some k \<Rightarrow> k \<noteq> [])"

definition generateUniqueId :: "int \<Rightarrow> string \<Rightarrow> string" where
  \<comment> \<open>\<open>now\<close> is \<open>Date.now()\<close>, \<open>rnd\<close> is \<open>Math.random().toString(36)\<close>; \<open>substr(2, 9)\<close>\<close>
  "generateUniqueId now rnd = ''pin_'' @ Number_toString now @ ''_'' @ take 9 (drop 2 rnd)"

definition showNotification :: "message \<Rightarrow> notification_type \<Rightarrow> MapApp \<Rightarrow> MapApp" where
  "showNotification m t s = s\<lparr>notifications := notifications s @ [(m, t)]\<rparr>"

definition L_marker_addTo :: "MapApp \<Rightarrow> nat \<times> MapApp" where
  \<comment> \<open>\<open>L.marker([lat, lng]).addTo(this.map)\<close>: a new marker, put on the map\<close>
  "L_marker_addTo s =
     (markers_made s,
      s\<lparr>layers := layers s @ [markers_made s], markers_made := Suc (markers_made s)\<rparr>)"

definition confirmed :: "pin \<Rightarrow> bool" where
  \<comment> \<open>\<open>pin => pin.title\<close>: the title is a non-empty string\<close>
  "confirmed pn = (title pn \<noteq> [])"

definition sidebar_pinsArray :: "MapApp \<Rightarrow> pin list" where
  \<comment> \<open>lines 249-251; the comparator orders by \<open>createdAt\<close>, latest first, and
      \<open>Array.prototype.sort\<close> is stable\<close>
  "sidebar_pinsArray s = sort_key (\<lambda>pn. - createdAt pn) (filter confirmed (Map_values (pins s)))"

definition render :: "pin \<Rightarrow> pin_item" where
  \<comment> \<open>lines 253-259\<close>
  "render pn =
     \<lparr>data_pin_id = pin_id pn,
      h4_text = title pn,
      p_text = (if description pn \<noteq> []
                then Shown (take 50 (description pn) @ (if length (description pn) > 50 then ''...'' else []))
                else Placeholder),
      displayed = True\<rparr>"

definition updateSidebar :: "MapApp \<Rightarrow> MapApp" where
  "updateSidebar s =
     (if pins s = [] then s\<lparr>pinList := []\<rparr>
      else s\<lparr>pinList := map render (sidebar_pinsArray s)\<rparr>)"

definition updatePinCount :: "MapApp \<Rightarrow> MapApp" where
  "updatePinCount s = s\<lparr>pinCount := length (filter confirmed (Map_values (pins s)))\<rparr>"

definition stored_object :: "pin \<Rightarrow> pinData" where
  \<comment> \<open>the object literal of lines 208-216: the pin without its marker\<close>
  "stored_object pn =
     \<lparr>pin_id = pin_id pn, lat = lat pn, lng = lng pn, title = title pn,
      description = description pn, createdAt = createdAt pn, updatedAt = updatedAt pn\<rparr>"

definition savePinsToStorage :: "MapApp \<Rightarrow> MapApp" where
  "savePinsToStorage s =
     (let pinsArray = map stored_object (Map_values (pins s))
      in if setItem_throws s then showNotification Save_failed error s
         else s\<lparr>mapPins := Some (Array (map JObject pinsArray))\<rparr>)"

definition showCommentModal :: "real \<Rightarrow> real \<Rightarrow> pin option \<Rightarrow> MapApp \<Rightarrow> MapApp" where
  "showCommentModal lat0 lng0 editData s =
     s\<lparr>isEditing := (editData \<noteq> None), commentModal_show := True\<rparr>"

definition hidePinInfoModal :: "MapApp \<Rightarrow> MapApp" where
  "hidePinInfoModal s = s\<lparr>pinInfoModal_show := False, currentPinId := None\<rparr>"

definition showPinInfo :: "pin \<Rightarrow> MapApp \<Rightarrow> MapApp" where
  "showPinInfo pinData s = s\<lparr>currentPinId := Some (pin_id pinData), pinInfoModal_show := True\<rparr>"

definition deletePin :: "string \<Rightarrow> bool \<Rightarrow> MapApp \<Rightarrow> MapApp" where
  \<comment> \<open>\<open>answer\<close> is what \<open>confirm(...)\<close> returns when it is asked\<close>
  "deletePin pinId answer s =
     (case Map_get (pins s) pinId of
        None \<Rightarrow> s
      | Some pinData \<Rightarrow>
          if answer then
            showNotification Pin_deleted success
              (hidePinInfoModal
                (updatePinCount
                  (updateSidebar
                    (savePinsToStorage
                      (s\<lparr>layers := removeAll (marker pinData) (layers s),
                         pins := Map_delete pinId (pins s)\<rparr>)))))
          else s)"

definition hideCommentModal :: "bool \<Rightarrow> MapApp \<Rightarrow> MapApp" where
  "hideCommentModal answer s =
     (let s1 = s\<lparr>commentModal_show := False\<rparr>;
          s2 = (if \<not> isEditing s1 \<and> truthy (currentPinId s1) then
                  (case Map_get (pins s1) (the (currentPinId s1)) of
                     None \<Rightarrow> s1
                   | Some pinData \<Rightarrow>
                       if \<not> confirmed pinData then deletePin (the (currentPinId s1)) answer s1
                       else s1)
                else s1)
      in s2\<lparr>currentPinId := None, isEditing := False\<rparr>)"

datatype addPin_data = Stored pinData | Fresh int string int

text \<open>\<open>addPin(lat, lng, data)\<close>: the third argument is the stored object, or it is null
  and the call reads \<open>Date.now()\<close>, \<open>Math.random().toString(36)\<close> and \<open>new Date()\<close>, which
  \<open>Fresh\<close> carries in this order.\<close>

definition addPin :: "real \<Rightarrow> real \<Rightarrow> addPin_data \<Rightarrow> MapApp \<Rightarrow> MapApp" where
  "addPin lat0 lng0 data s =
     (let pinId = (case data of Stored d \<Rightarrow> pin_id d | Fresh now rnd date \<Rightarrow> generateUniqueId now rnd);
          (mk, s1) = L_marker_addTo s
      in case data of
           Stored d \<Rightarrow>
             updatePinCount
               (updateSidebar
                 (s1\<lparr>pins := Map_set pinId
                         \<lparr>pin_id = pin_id d, lat = lat d, lng = lng d, title = title d,
                          description = description d, createdAt = createdAt d,
                          updatedAt = updatedAt d, marker = mk\<rparr> (pins s1)\<rparr>))
         | Fresh now rnd date \<Rightarrow>
             (let s2 = showCommentModal lat0 lng0 None (s1\<lparr>currentPinId := Some pinId\<rparr>)
              in s2\<lparr>pins := Map_set pinId
                        \<lparr>pin_id = pinId, lat = lat0, lng = lng0, title = [], description = [],
                         createdAt = date, updatedAt = None, marker = mk\<rparr> (pins s2)\<rparr>))"

definition savePin :: "formData \<Rightarrow> int \<Rightarrow> bool \<Rightarrow> MapApp \<Rightarrow> MapApp" where
  \<comment> \<open>\<open>now\<close> is \<open>new Date()\<close>; \<open>answer\<close> is for the dialog \<open>hideCommentModal\<close> may open\<close>
  "savePin fd now answer s =
     (if \<not> truthy (currentPinId s) then s
      else case Map_get (pins s) (the (currentPinId s)) of
             None \<Rightarrow> s
           | Some pinData \<Rightarrow>
               (let updatedData = pinData\<lparr>title := form_title fd,
                                          description := form_description fd,
                                          updatedAt := Some now\<rparr>
                in showNotification Pin_saved success
                     (hideCommentModal answer
                       (updateSidebar
                         (savePinsToStorage
                           (s\<lparr>pins := Map_set (the (currentPinId s)) updatedData (pins s)\<rparr>))))))"

definition clearAllPins :: "bool \<Rightarrow> MapApp \<Rightarrow> MapApp" where
  "clearAllPins answer s =
     (if pins s = [] then showNotification No_pins_to_delete info s
      else if answer then
        showNotification All_pins_deleted success
          (updatePinCount
            (updateSidebar
              (savePinsToStorage
                (s\<lparr>layers := filter (\<lambda>l. l \<notin> set (map marker (Map_values (pins s)))) (layers s),
                   pins := []\<rparr>))))
      else s)"

definition editPin :: "MapApp \<Rightarrow> MapApp" where
  "editPin s =
     (if \<not> truthy (currentPinId s) then s
      else case Map_get (pins s) (the (currentPinId s)) of
             None \<Rightarrow> s
           | Some pinData \<Rightarrow>
               showCommentModal (lat pinData) (lng pinData) (Some pinData) (hidePinInfoModal s))"

text \<open>The body of the \<open>try\<close> in \<open>loadPinsFromStorage\<close>: \<open>Inr\<close> when it runs to its end,
  \<open>Inl\<close> with the state reached when something throws (\<open>JSON.parse\<close> on a text that is
  not JSON, \<open>forEach\<close> on a value that has none, \<open>pinData.lat\<close> on null).\<close>

fun forEach_addPin :: "element list \<Rightarrow> MapApp \<Rightarrow> MapApp + MapApp" where
  "forEach_addPin [] s = Inr s"
| "forEach_addPin (JNull # es) s = Inl s"
| "forEach_addPin (JObject pinData # es) s =
     forEach_addPin es (addPin (lat pinData) (lng pinData) (Stored pinData) s)"

definition loadPinsFromStorage_try :: "MapApp \<Rightarrow> MapApp + MapApp" where
  "loadPinsFromStorage_try s =
     (case mapPins s of
        None \<Rightarrow> Inr s
      | Some Empty_text \<Rightarrow> Inr s
      | Some Unparsable \<Rightarrow> Inl s
      | Some Not_an_array \<Rightarrow> Inl s
      | Some (Array pinsArray) \<Rightarrow> forEach_addPin pinsArray s)"

definition loadPinsFromStorage :: "MapApp \<Rightarrow> MapApp" where
  "loadPinsFromStorage s =
     (case loadPinsFromStorage_try s of
        Inr s' \<Rightarrow> s'
      | Inl s' \<Rightarrow> showNotification Load_failed error s')"

definition ptext_includes :: "ptext \<Rightarrow> string \<Rightarrow> bool" where
  \<comment> \<open>\<open>p.textContent.toLowerCase().includes(searchTerm)\<close>; of a term of code units below
      256 only the empty one occurs in the placeholder\<close>
  "ptext_includes t searchTerm =
     (case t of Placeholder \<Rightarrow> searchTerm = [] | Shown d \<Rightarrow> String_includes (toLowerCase d) searchTerm)"

definition searchPins :: "string \<Rightarrow> MapApp \<Rightarrow> MapApp" where
  \<comment> \<open>\<open>input\<close> is the value of the element \<open>searchInput\<close>\<close>
  "searchPins input s =
     (let searchTerm = trim (toLowerCase input);
          shown = map (\<lambda>item. item\<lparr>displayed :=
                     (String_includes (toLowerCase (h4_text item)) searchTerm \<or> ptext_includes (p_text item) searchTerm)\<rparr>)
                   (pinList s)
      in if searchTerm = [] then s\<lparr>pinList := map (\<lambda>item. item\<lparr>displayed := True\<rparr>) shown\<rparr>
         else s\<lparr>pinList := shown\<rparr>)"

definition validateInput :: "formData \<Rightarrow> MapApp \<Rightarrow> bool \<times> MapApp" where
  "validateInput fd s =
     (if trim (form_title fd) = [] then (False, showNotification Title_required error s)
      else if length (form_title fd) > 50 then (False, showNotification Title_too_long error s)
      else if length (form_description fd) > 200 then (False, showNotification Description_too_long error s)
      else (True, s))"

definition new_MapApp :: "stored option \<Rightarrow> bool \<Rightarrow> MapApp" where
  \<comment> \<open>the constructor and \<open>init\<close>, on a page whose storage slot holds \<open>st\<close>\<close>
  "new_MapApp st throws =
     updatePinCount
       (loadPinsFromStorage
         \<lparr>pins = [], currentPinId = None, isEditing = False,
          commentModal_show = False, pinInfoModal_show = False,
          pinList = [], pinCount = 0, notifications = [],
          layers = [], markers_made = 0, mapPins = st, setItem_throws = throws\<rparr>)"

subsection \<open>The listeners of \<open>bindEvents\<close>, \<open>initMap\<close> and \<open>addPin\<close>\<close>

definition commentForm_submit :: "string \<Rightarrow> string \<Rightarrow> int \<Rightarrow> bool \<Rightarrow> MapApp \<Rightarrow> MapApp" where
  \<comment> \<open>lines 361-371; \<open>pinTitle\<close> and \<open>pinDescription\<close> are the values of the two fields\<close>
  "commentForm_submit pinTitle pinDescription now answer s =
     (let fd = \<lparr>form_title = trim pinTitle, form_description = trim pinDescription\<rparr>
      in case validateInput fd s of
           (True, s') \<Rightarrow> savePin fd now answer s'
         | (False, s') \<Rightarrow> s')"

definition marker_click :: "string \<Rightarrow> MapApp \<Rightarrow> MapApp" where
  \<comment> \<open>lines 59-64, for the marker made with this \<open>pinId\<close>; on a pin that is gone the
      listener throws and nothing changes\<close>
  "marker_click pinId s =
     (case Map_get (pins s) pinId of
        None \<Rightarrow> s
      | Some pinData \<Rightarrow> if confirmed pinData then showPinInfo pinData s else s)"

definition deletePinBtn_click :: "bool \<Rightarrow> MapApp \<Rightarrow> MapApp" where
  "deletePinBtn_click answer s =
     (if truthy (currentPinId s) then deletePin (the (currentPinId s)) answer s else s)"

definition keydown_Escape :: "bool \<Rightarrow> MapApp \<Rightarrow> MapApp" where
  "keydown_Escape answer s =
     (if commentModal_show s then hideCommentModal answer s
      else if pinInfoModal_show s then hidePinInfoModal s
      else s)"

text \<open>A gesture of the user, with what the listener reads from outside the program.
  \<open>Close_comment\<close> and \<open>Close_info\<close> stand for the close element and the backdrop of the
  two dialogs, which end in \<open>hideCommentModal\<close> and \<open>hidePinInfoModal\<close>.\<close>

datatype event =
    Map_click real real int string int
  | Marker_click string
  | Marker_contextmenu string bool
  | Form_submit string string int bool
  | Cancel_click bool
  | Close_comment bool
  | Close_info
  | ClearAll_click bool
  | Search_input string
  | EditPin_click
  | DeletePin_click bool
  | Escape_key bool

fun on_event :: "event \<Rightarrow> MapApp \<Rightarrow> MapApp" where
  "on_event (Map_click lat0 lng0 now rnd date) s = addPin lat0 lng0 (Fresh now rnd date) s"
| "on_event (Marker_click pinId) s = marker_click pinId s"
| "on_event (Marker_contextmenu pinId answer) s = deletePin pinId answer s"
| "on_event (Form_submit pinTitle pinDescription now answer) s =
     commentForm_submit pinTitle pinDescription now answer s"
| "on_event (Cancel_click answer) s = hideCommentModal answer s"
| "on_event (Close_comment answer) s = hideCommentModal answer s"
| "on_event Close_info s = hidePinInfoModal s"
| "on_event (ClearAll_click answer) s = clearAllPins answer s"
| "on_event (Search_input input) s = searchPins input s"
| "on_event EditPin_click s = editPin s"
| "on_event (DeletePin_click answer) s = deletePinBtn_click answer s"
| "on_event (Escape_key answer) s = keydown_Escape answer s"

fun run :: "event list \<Rightarrow> MapApp \<Rightarrow> MapApp" where
  "run [] s = s"
| "run (e # es) s = run es (on_event e s)"

text \<open>The invariant of the store: the keys of the \<open>Map\<close> are distinct, and every pin is
  filed under its own id.\<close>

definition wf :: "MapApp \<Rightarrow> bool" where
  "wf s = (distinct (map fst (pins s)) \<and> list_all (\<lambda>(k, pn). pin_id pn = k) (pins s))"

section \<open>Properties\<close>

declare digits.simps [simp del]

lemmas method_defs =
  addPin_def savePin_def deletePin_def hideCommentModal_def showCommentModal_def
  hidePinInfoModal_def showPinInfo_def updateSidebar_def updatePinCount_def
  savePinsToStorage_def showNotification_def L_marker_addTo_def clearAllPins_def editPin_def
  searchPins_def validateInput_def commentForm_submit_def marker_click_def
  deletePinBtn_click_def keydown_Escape_def loadPinsFromStorage_def
  loadPinsFromStorage_try_def new_MapApp_def

lemmas Map_defs = Map_get_def Map_set_def Map_delete_def Map_values_def

subsection \<open>What each method does to the store\<close>


lemma pins_savePinsToStorage [simp]: "pins (savePinsToStorage s) = pins s"
  by (simp add: savePinsToStorage_def showNotification_def Let_def)

lemma pins_updateSidebar [simp]: "pins (updateSidebar s) = pins s"
  by (simp add: updateSidebar_def)

lemma pins_updatePinCount [simp]: "pins (updatePinCount s) = pins s"
  by (simp add: updatePinCount_def)

lemma pins_showNotification [simp]: "pins (showNotification m t s) = pins s"
  by (simp add: showNotification_def)

lemma pins_hidePinInfoModal [simp]: "pins (hidePinInfoModal s) = pins s"
  by (simp add: hidePinInfoModal_def)

lemma pins_showCommentModal [simp]: "pins (showCommentModal a b e s) = pins s"
  by (simp add: showCommentModal_def)

lemma pins_showPinInfo [simp]: "pins (showPinInfo pn s) = pins s"
  by (simp add: showPinInfo_def)

lemma pins_searchPins [simp]: "pins (searchPins i s) = pins s"
  by (simp add: searchPins_def Let_def)

lemma current_frame [simp]:
  "currentPinId (savePinsToStorage s) = currentPinId s"
  "currentPinId (updateSidebar s) = currentPinId s"
  "currentPinId (updatePinCount s) = currentPinId s"
  "currentPinId (showNotification m t s) = currentPinId s"
  "isEditing (savePinsToStorage s) = isEditing s"
  "isEditing (updateSidebar s) = isEditing s"
  "isEditing (updatePinCount s) = isEditing s"
  "isEditing (showNotification m t s) = isEditing s"
  by (simp_all add: savePinsToStorage_def updateSidebar_def updatePinCount_def
      showNotification_def Let_def)

lemma deletePin_absent: "Map_get (pins s) k = None \<Longrightarrow> deletePin k answer s = s"
  by (simp add: deletePin_def)

lemma deletePin_declined: "deletePin k False s = s"
  by (simp add: deletePin_def split: option.splits)

lemma pins_deletePin:
  "pins (deletePin k answer s) = (if answer then Map_delete k (pins s) else pins s)"
  by (auto simp: deletePin_def Map_defs map_of_eq_None_iff AList.delete_id split: option.splits)






lemma Map_get_delete: "Map_get (Map_delete k m) k' = (if k' = k then None else Map_get m k')"
  by (simp add: Map_get_def Map_delete_def delete_conv)

subsection \<open>Claims\<close>




text \<open>
  C3, at the input where the code departs from it: on a page without stored pins, one
  click on the map and one valid submit leave the counter at 0 while the store holds one
  confirmed pin. \<open>savePin\<close> never calls \<open>updatePinCount\<close>.
\<close>

theorem C3_counter_stale_after_savePin:
  "pinCount (run [Map_click 35 139 5 ''0.abc'' 5, Form_submit ''Cafe'' [] 7 True]
               (new_MapApp None False)) = 0
   \<and> length (filter confirmed (Map_values (pins
        (run [Map_click 35 139 5 ''0.abc'' 5, Form_submit ''Cafe'' [] 7 True]
           (new_MapApp None False))))) = 1"
  by code_simp

text \<open>
  C5, as the code has it. \<open>deletePin\<close> on an id that is not in the store returns with the
  state as it was, and nothing is thrown or notified. On an id that is in the store it
  asks the user: when the answer is no the state stays as it was; when it is yes the
  entry is removed, whatever its title, and every other entry stays.
\<close>

theorem C5_deletePin:
  "(Map_get (pins s) k = None \<longrightarrow> deletePin k answer s = s)
   \<and> deletePin k False s = s
   \<and> Map_get (pins (deletePin k True s)) k = None
   \<and> (\<forall>k'. k' \<noteq> k \<longrightarrow> Map_get (pins (deletePin k True s)) k' = Map_get (pins s) k')"
  by (simp add: deletePin_absent deletePin_declined pins_deletePin Map_get_delete)

theorem C5_deletePin_witness:
  "Map_get (pins (new_MapApp None False)) ''a'' = None
   \<and> deletePin ''a'' True (new_MapApp None False) = new_MapApp None False"
proof -
  have h: "Map_get (pins (new_MapApp None False)) ''a'' = None"
    by code_simp
  from C5_deletePin [of "new_MapApp None False" "''a''" True] h show ?thesis
    by simp
qed

theorem C5_declined_counterexample:
  "Map_get (pins (new_MapApp (Some (Array [JObject
       \<lparr>pin_id = ''a'', lat = 1, lng = 2, title = ''A'', description = [], createdAt = 5,
        updatedAt = None\<rparr>])) False)) ''a'' \<noteq> None
   \<and> Map_get (pins (deletePin ''a'' False (new_MapApp (Some (Array [JObject
       \<lparr>pin_id = ''a'', lat = 1, lng = 2, title = ''A'', description = [], createdAt = 5,
        updatedAt = None\<rparr>])) False))) ''a'' \<noteq> None"
  by code_simp

end
